theory Spec2Isabelle
  imports Main
begin

section \<open>Data model (lib/distributed-tasks)\<close>

text \<open>
  The task status is the string union of the interface \<open>DistributedTask\<close>
  (\<open>pending\<close>, \<open>in_progress\<close>, \<open>completed\<close>, \<open>failed\<close>, \<open>abandoned\<close>).
  The constructor \<open>Cancelled\<close> is not part of the union in the source; it is the sixth
  status of the specification and is written only by the specification-level
  operation \<open>cancelTask\<close> below.
\<close>

datatype task_status = Pending | InProgress | Completed | Failed | Abandoned | Cancelled

text \<open>Timestamps (\<open>new Date().toISOString()\<close>) are readings of the process clock, a natural number.\<close>

record task_result =
  summary :: string
  success :: bool
  error :: "string option"

record DistributedTask =
  id_task :: string
  assignedTo :: string
  assignedBy :: string
  status :: task_status
  title :: string
  description :: string
  createdAt :: nat
  startedAt :: "nat option"
  completedAt :: "nat option"
  sessionId :: "string option"
  result :: "task_result option"

record TaskQueue =
  spriteName :: string
  queuedTasks :: "string list"
  currentTask :: "string option"
  lastUpdated :: nat

text \<open>
  \<open>Partial<DistributedTask>\<close>: every key may be absent (\<open>None\<close>) or carry a value.
\<close>

record task_updates =
  u_id :: "string option"
  u_assignedTo :: "string option"
  u_assignedBy :: "string option"
  u_status :: "task_status option"
  u_title :: "string option"
  u_description :: "string option"
  u_createdAt :: "nat option"
  u_startedAt :: "nat option"
  u_completedAt :: "nat option"
  u_sessionId :: "string option"
  u_result :: "task_result option"

definition no_updates :: task_updates where
  "no_updates = \<lparr>u_id = None, u_assignedTo = None, u_assignedBy = None, u_status = None,
     u_title = None, u_description = None, u_createdAt = None, u_startedAt = None,
     u_completedAt = None, u_sessionId = None, u_result = None\<rparr>"

text \<open>
  The argument of the library's \<open>createTask\<close>:
  \<open>Omit<DistributedTask, "id" | "createdAt" | "status">\<close>, as its two callers build it.
\<close>

record new_task =
  n_assignedTo :: string
  n_assignedBy :: string
  n_title :: string
  n_description :: string

text \<open>
  The shared bucket holds two families of objects, \<open>tasks/{id}.json\<close> and
  \<open>task-queues/{spriteName}.json\<close>; each family is a map from the variable part of the
  key to the parsed record. Every stored object is a well-formed record of its family, and
  a request to the bucket is answered: an absent key (\<open>NoSuchKey\<close>) is the only failure
  of a read that is modelled.
\<close>

record bucket =
  tasks :: "string \<rightharpoonup> DistributedTask"
  queues :: "string \<rightharpoonup> TaskQueue"

datatype log_entry = Log string | Err string

text \<open>
  The state one call runs against: the module variables \<open>s3Client\<close> and \<open>bucketName\<close>,
  the bucket, and what the process reads from its environment: the host name, the clock,
  \<open>randomUUID\<close> (an endless supply and the number of draws so far), the session-id
  generator and the local session list of \<open>lib/storage\<close>, the sprites that
  \<open>discoverSprites\<close> reports, how the child process that wakes a given sprite ends, and
  the console.
  One call is one sequential run against this state; the clock does not advance during it.
\<close>

text \<open>
  The child process started to wake a sprite either closes with an exit code or cannot be
  started at all (it then emits \<open>error\<close> instead of \<open>close\<close>).
\<close>

datatype wake_outcome = Exited nat | SpawnFailed

record world =
  s3Client :: bool
  bucketName :: "string option"
  store :: bucket
  hostname :: string
  clock :: nat
  uuidGen :: "nat \<Rightarrow> string"
  uuidCount :: nat
  idGen :: "nat \<Rightarrow> string"
  idCount :: nat
  sessions :: "(string \<times> string) list"
  sprites :: "string list"
  wakeOutcome :: "string \<Rightarrow> wake_outcome"
  console :: "log_entry list"

datatype error = NotInitialized | TaskNotFound string | NoCurrentTask | NotifyFailed string


text \<open>JavaScript truthiness of a value of type \<open>string | null\<close> (or an absent key).\<close>

fun truthy :: "string option \<Rightarrow> bool" where
  "truthy None = False"
| "truthy (Some s) = (s \<noteq> [])"

section \<open>The library: registry and queues\<close>

definition isTasksNetworkEnabled :: "world \<Rightarrow> bool" where
  "isTasksNetworkEnabled w = (s3Client w \<and> bucketName w \<noteq> None)"

text \<open>The guard \<open>!s3Client || !bucketName\<close> that opens every library function.\<close>

definition notInitialized :: "world \<Rightarrow> bool" where
  "notInitialized w = (\<not> s3Client w \<or> \<not> truthy (bucketName w))"

definition getHostname :: "world \<Rightarrow> string" where
  "getHostname w = hostname w"

definition now :: "world \<Rightarrow> nat" where
  "now w = clock w"

definition randomUUID :: "world \<Rightarrow> string \<times> world" where
  "randomUUID w = (uuidGen w (uuidCount w), w\<lparr>uuidCount := Suc (uuidCount w)\<rparr>)"

definition console_log :: "string \<Rightarrow> world \<Rightarrow> world" where
  "console_log msg w = w\<lparr>console := console w @ [Log msg]\<rparr>"

definition console_error :: "string \<Rightarrow> world \<Rightarrow> world" where
  "console_error msg w = w\<lparr>console := console w @ [Err msg]\<rparr>"

definition putTask :: "string \<Rightarrow> DistributedTask \<Rightarrow> world \<Rightarrow> world" where
  "putTask key t w = w\<lparr>store := (store w)\<lparr>tasks := (tasks (store w))(key \<mapsto> t)\<rparr>\<rparr>"

definition putQueue :: "string \<Rightarrow> TaskQueue \<Rightarrow> world \<Rightarrow> world" where
  "putQueue key q w = w\<lparr>store := (store w)\<lparr>queues := (queues (store w))(key \<mapsto> q)\<rparr>\<rparr>"

definition getTask :: "string \<Rightarrow> world \<Rightarrow> (error + DistributedTask option) \<times> world" where
  "getTask taskId w =
     (if notInitialized w then (Inl NotInitialized, w)
      else (Inr (tasks (store w) taskId), w))"

text \<open>The spread \<open>{ ...task, ...updates }\<close>: a key present in \<open>updates\<close> wins.\<close>

definition merge_task :: "DistributedTask \<Rightarrow> task_updates \<Rightarrow> DistributedTask" where
  "merge_task t u =
     \<lparr>id_task = (case u_id u of None \<Rightarrow> id_task t | Some v \<Rightarrow> v),
      assignedTo = (case u_assignedTo u of None \<Rightarrow> assignedTo t | Some v \<Rightarrow> v),
      assignedBy = (case u_assignedBy u of None \<Rightarrow> assignedBy t | Some v \<Rightarrow> v),
      status = (case u_status u of None \<Rightarrow> status t | Some v \<Rightarrow> v),
      title = (case u_title u of None \<Rightarrow> title t | Some v \<Rightarrow> v),
      description = (case u_description u of None \<Rightarrow> description t | Some v \<Rightarrow> v),
      createdAt = (case u_createdAt u of None \<Rightarrow> createdAt t | Some v \<Rightarrow> v),
      startedAt = (case u_startedAt u of None \<Rightarrow> startedAt t | Some v \<Rightarrow> Some v),
      completedAt = (case u_completedAt u of None \<Rightarrow> completedAt t | Some v \<Rightarrow> Some v),
      sessionId = (case u_sessionId u of None \<Rightarrow> sessionId t | Some v \<Rightarrow> Some v),
      result = (case u_result u of None \<Rightarrow> result t | Some v \<Rightarrow> Some v)\<rparr>"

definition updateTask :: "string \<Rightarrow> task_updates \<Rightarrow> world \<Rightarrow> (error + unit) \<times> world" where
  "updateTask taskId updates w =
     (if notInitialized w then (Inl NotInitialized, w)
      else case getTask taskId w of
             (Inl e, w1) \<Rightarrow> (Inl e, w1)
           | (Inr None, w1) \<Rightarrow> (Inl (TaskNotFound taskId), w1)
           | (Inr (Some task), w1) \<Rightarrow>
               (Inr (), console_log (''Updated task '' @ taskId)
                          (putTask taskId (merge_task task updates) w1)))"

definition getTaskQueue :: "string \<Rightarrow> world \<Rightarrow> (error + TaskQueue) \<times> world" where
  "getTaskQueue name w =
     (if notInitialized w then (Inl NotInitialized, w)
      else case queues (store w) name of
             None \<Rightarrow> (Inr \<lparr>spriteName = name, queuedTasks = [], currentTask = None,
                           lastUpdated = now w\<rparr>, w)
           | Some q \<Rightarrow> (Inr q, w))"

definition updateTaskQueue :: "TaskQueue \<Rightarrow> world \<Rightarrow> (error + unit) \<times> world" where
  "updateTaskQueue queue w =
     (if notInitialized w then (Inl NotInitialized, w)
      else (Inr (), console_log (''Updated task queue for '' @ spriteName queue)
                      (putQueue (spriteName queue) (queue\<lparr>lastUpdated := now w\<rparr>) w)))"

definition addTaskToQueue :: "string \<Rightarrow> string \<Rightarrow> world \<Rightarrow> (error + unit) \<times> world" where
  "addTaskToQueue name taskId w =
     (case getTaskQueue name w of
        (Inl e, w1) \<Rightarrow> (Inl e, w1)
      | (Inr queue, w1) \<Rightarrow>
          updateTaskQueue (queue\<lparr>queuedTasks := queuedTasks queue @ [taskId]\<rparr>) w1)"

definition getNextTask :: "string \<Rightarrow> world \<Rightarrow> (error + DistributedTask option) \<times> world" where
  "getNextTask name w =
     (case getTaskQueue name w of
        (Inl e, w1) \<Rightarrow> (Inl e, w1)
      | (Inr queue, w1) \<Rightarrow>
          (case queuedTasks queue of
             [] \<Rightarrow> (Inr None, w1)
           | nextTaskId # rest \<Rightarrow>
               (case updateTaskQueue (queue\<lparr>queuedTasks := rest, currentTask := Some nextTaskId\<rparr>) w1 of
                  (Inl e, w2) \<Rightarrow> (Inl e, w2)
                | (Inr u, w2) \<Rightarrow> getTask nextTaskId w2)))"

definition createTask :: "new_task \<Rightarrow> world \<Rightarrow> (error + DistributedTask) \<times> world" where
  "createTask task w =
     (if notInitialized w then (Inl NotInitialized, w)
      else case randomUUID w of (uuid, w1) \<Rightarrow>
        (let fullTask = \<lparr>id_task = uuid, assignedTo = n_assignedTo task,
                         assignedBy = n_assignedBy task, status = Pending,
                         title = n_title task, description = n_description task,
                         createdAt = now w1, startedAt = None, completedAt = None,
                         sessionId = None, result = None\<rparr>
         in case addTaskToQueue (n_assignedTo task) uuid (putTask uuid fullTask w1) of
              (Inl e, w2) \<Rightarrow> (Inl e, w2)
            | (Inr u, w2) \<Rightarrow>
                (Inr fullTask,
                 console_log (''Created task '' @ uuid @ '' for '' @ n_assignedTo task) w2)))"


section \<open>The routes (routes/distributed-tasks)\<close>

text \<open>
  A request body is parsed JSON. The fields the routes use as strings are modelled as
  \<open>string option\<close> (\<open>None\<close> for an absent key); the \<open>success\<close> flag of the completion
  request is compared with \<open>!==\<close> and may be any JSON value. Numbers are integers here.
\<close>

datatype json = JNull | JBool bool | JNumber int | JString string
  | JArray "json list" | JObject "(string \<times> json) list"

text \<open>A route answers \<open>{ error, status }\<close> or a result object.\<close>

datatype 'a response = ErrorResponse string nat | OkResponse 'a


record task_description =
  d_title :: string
  d_description :: string

text \<open>\<open>taskDescriptions\<close> is \<open>None\<close> when the key is absent or not an array.\<close>

record distribute_body =
  taskDescriptions :: "task_description list option"


datatype check_result =
    AlreadyWorking string
  | NoPendingTasks
  | StartedTask DistributedTask string


text \<open>
  How a call of a route that starts a child process ends: it throws, it returns its answer,
  or the process is gone before the call is over.
\<close>

datatype 'a call = Throws error | Returns 'a | Dies

text \<open>The promise \<open>wakeAndNotifySprite\<close> returns, as it ends up.\<close>

datatype promise = Resolved | Rejected error | Unsettled

text \<open>
  \<open>wakeAndNotifySprite\<close> spawns \<open>sprite -s name exec -- curl -X POST .../check\<close>. Its
  only listener on the child is for \<open>close\<close>: the promise resolves when the child closes
  with code 0 and rejects when it closes with another code. When the child cannot be
  started, neither happens and the promise stays unsettled. What the woken sprite then
  does is a call of its own, not part of this one.
\<close>

definition wakeAndNotifySprite :: "string \<Rightarrow> world \<Rightarrow> promise \<times> world" where
  "wakeAndNotifySprite name w =
     (case wakeOutcome w name of
        Exited code \<Rightarrow>
          if code = 0
          then (Resolved, console_log (''Notified '' @ name @ '' to check for tasks'') w)
          else (Rejected (NotifyFailed name), w)
      | SpawnFailed \<Rightarrow> (Unsettled, w))"

text \<open>
  The call site: \<open>wakeAndNotifySprite(assignedTo).catch(err => console.error(...))\<close>.
  A rejection is logged. A child that cannot be started emits \<open>error\<close>, for which the
  child has no listener: \<open>catch\<close> never runs, nothing is logged, and the unhandled event
  ends the process.
\<close>

definition wakeCatch :: "string \<Rightarrow> world \<Rightarrow> unit call \<times> world" where
  "wakeCatch name w =
     (case wakeAndNotifySprite name w of
        (Resolved, w1) \<Rightarrow> (Returns (), w1)
      | (Rejected e, w1) \<Rightarrow>
          (Returns (), console_error (''Failed to wake sprite '' @ name @ '':'') w1)
      | (Unsettled, w1) \<Rightarrow> (Dies, w1))"


text \<open>
  The round-robin loop of \<open>distributeTasks\<close>, from index \<open>i\<close> on. When a wake ends the
  process, the loop ends with it, before the next task is created.
\<close>

fun distribute_loop ::
    "nat \<Rightarrow> task_description list \<Rightarrow> string list \<Rightarrow> string \<Rightarrow> DistributedTask list \<Rightarrow> world
       \<Rightarrow> DistributedTask list call \<times> world" where
  "distribute_loop i [] availableSprites assigner createdTasks w = (Returns createdTasks, w)"
| "distribute_loop i (d # ds) availableSprites assigner createdTasks w =
     (let target = availableSprites ! (i mod length availableSprites)
      in case createTask \<lparr>n_assignedTo = target, n_assignedBy = assigner,
                          n_title = d_title d, n_description = d_description d\<rparr> w of
           (Inl e, w1) \<Rightarrow> (Throws e, w1)
         | (Inr task, w1) \<Rightarrow>
             (case wakeCatch target w1 of
                (Returns u, w2) \<Rightarrow>
                  distribute_loop (Suc i) ds availableSprites assigner (createdTasks @ [task]) w2
              | (Throws e, w2) \<Rightarrow> (Throws e, w2)
              | (Dies, w2) \<Rightarrow> (Dies, w2)))"

text \<open>
  \<open>summarizeDistribution\<close> counts in a plain object \<open>{}\<close>, reading a key with
  \<open>distribution[k] || 0\<close>. A plain object inherits the members of \<open>Object.prototype\<close>,
  so for a key that names one of them the first read yields that member, not
  \<open>undefined\<close>. A value of the summary is therefore a number or a string: \<open>Garbled m n\<close>
  is the text of the member \<open>m\<close> followed by \<open>n\<close> characters \<open>1\<close>.
\<close>

datatype tally = Count nat | Garbled string nat

text \<open>The function-valued members of \<open>Object.prototype\<close>; \<open>__proto__\<close> is the accessor.\<close>

definition objectPrototypeMembers :: "string list" where
  "objectPrototypeMembers =
     [''constructor'', ''hasOwnProperty'', ''isPrototypeOf'', ''propertyIsEnumerable'',
      ''toLocaleString'', ''toString'', ''valueOf'', ''__defineGetter__'',
      ''__defineSetter__'', ''__lookupGetter__'', ''__lookupSetter__'']"

text \<open>
  One pass of \<open>distribution[k] = (distribution[k] || 0) + 1\<close> over the own properties:
  a number is incremented; a string gets \<open>1\<close> appended; an inherited function is turned
  into its text with \<open>1\<close> appended and stored as an own property; for \<open>__proto__\<close> the
  read yields the prototype object and the assignment of a string to it is ignored.
\<close>

definition count_key :: "string \<Rightarrow> (string \<rightharpoonup> tally) \<Rightarrow> (string \<rightharpoonup> tally)" where
  "count_key k distribution =
     (case distribution k of
        Some (Count c) \<Rightarrow> distribution(k \<mapsto> Count (c + 1))
      | Some (Garbled m n) \<Rightarrow> distribution(k \<mapsto> Garbled m (n + 1))
      | None \<Rightarrow>
          if k = ''__proto__'' then distribution
          else if k \<in> set objectPrototypeMembers then distribution(k \<mapsto> Garbled k 1)
          else distribution(k \<mapsto> Count 1))"

fun summarize_loop :: "DistributedTask list \<Rightarrow> (string \<rightharpoonup> tally) \<Rightarrow> (string \<rightharpoonup> tally)" where
  "summarize_loop [] distribution = distribution"
| "summarize_loop (task # rest) distribution =
     summarize_loop rest (count_key (assignedTo task) distribution)"

definition summarizeDistribution :: "DistributedTask list \<Rightarrow> (string \<rightharpoonup> tally)" where
  "summarizeDistribution ts = summarize_loop ts Map.empty"

definition distributeTasks ::
    "distribute_body \<Rightarrow> world
       \<Rightarrow> (DistributedTask list \<times> (string \<rightharpoonup> tally)) response call \<times> world" where
  "distributeTasks body w =
     (case taskDescriptions body of
        None \<Rightarrow> (Returns (ErrorResponse ''taskDescriptions must be a non-empty array'' 400), w)
      | Some descs \<Rightarrow>
          if descs = []
          then (Returns (ErrorResponse ''taskDescriptions must be a non-empty array'' 400), w)
          else if \<not> isTasksNetworkEnabled w
          then (Returns (ErrorResponse ''Distributed tasks not configured'' 503), w)
          else (let assigner = getHostname w;
                    availableSprites = filter (\<lambda>s. s \<noteq> assigner) (sprites w)
                in if length availableSprites = 0
                   then (Returns (ErrorResponse ''No other sprites available in network'' 400), w)
                   else case distribute_loop 0 descs availableSprites assigner [] w of
                          (Throws e, w1) \<Rightarrow> (Throws e, w1)
                        | (Dies, w1) \<Rightarrow> (Dies, w1)
                        | (Returns createdTasks, w1) \<Rightarrow>
                            (Returns (OkResponse (createdTasks, summarizeDistribution createdTasks)),
                             w1)))"

text \<open>
  \<open>createTaskSession\<close> belongs to the chat side (\<open>lib/storage\<close>): it draws a session id,
  appends a session named after the task to the local session list and returns the id.
\<close>

definition createTaskSession :: "DistributedTask \<Rightarrow> world \<Rightarrow> string \<times> world" where
  "createTaskSession task w =
     (let sid = idGen w (idCount w)
      in (sid, w\<lparr>idCount := Suc (idCount w),
                 sessions := sessions w @ [(sid, ''Task: '' @ title task)]\<rparr>))"

definition checkForTasks :: "world \<Rightarrow> (error + check_result response) \<times> world" where
  "checkForTasks w =
     (if \<not> isTasksNetworkEnabled w
      then (Inr (ErrorResponse ''Distributed tasks not configured'' 503), w)
      else case getTaskQueue (getHostname w) w of
          (Inl e, w1) \<Rightarrow> (Inl e, w1)
        | (Inr queue, w1) \<Rightarrow>
            (case (if truthy (currentTask queue) then currentTask queue else None) of
               Some cur \<Rightarrow> (Inr (OkResponse (AlreadyWorking cur)), w1)
             | None \<Rightarrow>
                 (case getNextTask (getHostname w) w1 of
                    (Inl e, w2) \<Rightarrow> (Inl e, w2)
                  | (Inr None, w2) \<Rightarrow> (Inr (OkResponse NoPendingTasks), w2)
                  | (Inr (Some nextTask), w2) \<Rightarrow>
                      (case updateTask (id_task nextTask)
                              (no_updates\<lparr>u_status := Some InProgress,
                                          u_startedAt := Some (now w2)\<rparr>) w2 of
                         (Inl e, w3) \<Rightarrow> (Inl e, w3)
                       | (Inr u, w3) \<Rightarrow>
                           (case createTaskSession nextTask w3 of (sid, w4) \<Rightarrow>
                              (case updateTask (id_task nextTask)
                                      (no_updates\<lparr>u_sessionId := Some sid\<rparr>) w4 of
                                 (Inl e, w5) \<Rightarrow> (Inl e, w5)
                               | (Inr u', w5) \<Rightarrow>
                                   (Inr (OkResponse (StartedTask nextTask sid)), w5)))))))"


section \<open>Cancellation and reassignment\<close>

text \<open>
  The routes \<open>POST /api/distributed-tasks/:id/cancel\<close> and \<open>.../:id/reassign\<close> of
  \<open>routes/api.ts\<close> dispatch to \<open>cancelTask\<close> and \<open>reassignTask\<close>, whose bodies are not
  among the sources. The two definitions below follow the specification.
\<close>

text \<open>
  Modelled from the spec: the body of \<open>cancelTask\<close> is missing; this is what it does
  to one node queue. "If the task is some node's \<open>currentTask\<close>, clears it; if still
  queued anywhere, removes it." A queue that holds the id is rewritten (and its
  \<open>lastUpdated\<close> refreshed); the others are left as they are.
\<close>

definition cancelInQueue :: "string \<Rightarrow> nat \<Rightarrow> TaskQueue \<Rightarrow> TaskQueue" where
  "cancelInQueue taskId t q =
     (if currentTask q = Some taskId \<or> taskId \<in> set (queuedTasks q)
      then q\<lparr>queuedTasks := removeAll taskId (queuedTasks q),
             currentTask := (if currentTask q = Some taskId then None else currentTask q),
             lastUpdated := t\<rparr>
      else q)"

text \<open>
  Modelled from the spec: the body of \<open>cancelTask\<close> is missing. "Sets status
  \<open>cancelled\<close>; if the task is some node's \<open>currentTask\<close>, clears it; if still queued
  anywhere, removes it." The status is set through \<open>updateTask\<close>, so an unknown id is
  rejected as not found, as for any update; then every stored queue is visited.
\<close>

definition cancelTask :: "string \<Rightarrow> world \<Rightarrow> (error + unit) \<times> world" where
  "cancelTask taskId w =
     (case updateTask taskId (no_updates\<lparr>u_status := Some Cancelled\<rparr>) w of
        (Inl e, w1) \<Rightarrow> (Inl e, w1)
      | (Inr u, w1) \<Rightarrow>
          (Inr (), w1\<lparr>store := (store w1)\<lparr>queues :=
                     (\<lambda>n. map_option (cancelInQueue taskId (now w1)) (queues (store w1) n))\<rparr>\<rparr>))"

text \<open>
  Modelled from the spec: the wake that \<open>reassignTask\<close> sends; it is missing with the
  body of \<open>reassignTask\<close>. "Wake-notification failures are always swallowed and logged;
  they must never fail the triggering operation."
\<close>

definition wakeBestEffort :: "string \<Rightarrow> world \<Rightarrow> world" where
  "wakeBestEffort name w =
     (case wakeOutcome w name of
        Exited code \<Rightarrow>
          if code = 0 then console_log (''Notified '' @ name @ '' to check for tasks'') w
          else console_error (''Failed to wake sprite '' @ name @ '':'') w
      | SpawnFailed \<Rightarrow> console_error (''Failed to wake sprite '' @ name @ '':'') w)"

text \<open>
  Modelled from the spec: the body of \<open>reassignTask\<close> is missing. "Removes the task from
  the old assignee's queue or current slot, resets status to \<open>pending\<close> (timestamps for the
  abandoned attempt are left as a historical record, not erased), enqueues onto
  \<open>newAssignee\<close>'s queue, updates \<open>assignedTo\<close>, sends a new wake notification."
\<close>

definition reassignTask :: "string \<Rightarrow> string \<Rightarrow> world \<Rightarrow> (error + unit) \<times> world" where
  "reassignTask taskId newAssignee w =
     (case getTask taskId w of
        (Inl e, w1) \<Rightarrow> (Inl e, w1)
      | (Inr None, w1) \<Rightarrow> (Inl (TaskNotFound taskId), w1)
      | (Inr (Some task), w1) \<Rightarrow>
          (case getTaskQueue (assignedTo task) w1 of
             (Inl e, w2) \<Rightarrow> (Inl e, w2)
           | (Inr queue, w2) \<Rightarrow>
               (case updateTaskQueue
                       (queue\<lparr>queuedTasks := removeAll taskId (queuedTasks queue),
                              currentTask := (if currentTask queue = Some taskId then None
                                              else currentTask queue)\<rparr>) w2 of
                  (Inl e, w3) \<Rightarrow> (Inl e, w3)
                | (Inr u, w3) \<Rightarrow>
                    (case updateTask taskId
                            (no_updates\<lparr>u_status := Some Pending,
                                        u_assignedTo := Some newAssignee\<rparr>) w3 of
                       (Inl e, w4) \<Rightarrow> (Inl e, w4)
                     | (Inr u', w4) \<Rightarrow>
                         (case addTaskToQueue newAssignee taskId w4 of
                            (Inl e, w5) \<Rightarrow> (Inl e, w5)
                          | (Inr u'', w5) \<Rightarrow> (Inr (), wakeBestEffort newAssignee w5))))))"

section \<open>Example states\<close>

definition example_uuid :: "nat \<Rightarrow> string" where
  "example_uuid n = ''task-'' @ replicate n (CHR ''i'')"

definition example_sid :: "nat \<Rightarrow> string" where
  "example_sid n = ''session-'' @ replicate n (CHR ''i'')"

text \<open>A configured process on \<open>node-b\<close>, an empty bucket, and wakes that fail.\<close>

definition example_world :: world where
  "example_world =
     \<lparr>s3Client = True, bucketName = Some ''sprites'',
      store = \<lparr>tasks = Map.empty, queues = Map.empty\<rparr>,
      hostname = ''node-b'', clock = 7,
      uuidGen = example_uuid, uuidCount = 0, idGen = example_sid, idCount = 0,
      sessions = [], sprites = [''p1'', ''node-b'', ''p2''],
      wakeOutcome = (\<lambda>n. Exited 1), console = []\<rparr>"

definition example_task :: DistributedTask where
  "example_task =
     \<lparr>id_task = ''t1'', assignedTo = ''node-b'', assignedBy = ''node-a'', status = InProgress,
      title = ''T1'', description = ''D1'', createdAt = 3, startedAt = Some 5,
      completedAt = None, sessionId = Some ''s1'', result = None\<rparr>"

definition busy_queue :: TaskQueue where
  "busy_queue = \<lparr>spriteName = ''node-b'', queuedTasks = [''t2''], currentTask = Some ''t1'',
                  lastUpdated = 5\<rparr>"

text \<open>\<open>node-b\<close> is working on \<open>t1\<close>; \<open>t2\<close> waits in its backlog without a stored record.\<close>

definition busy_world :: world where
  "busy_world = example_world\<lparr>store :=
     \<lparr>tasks = [''t1'' \<mapsto> example_task], queues = [''node-b'' \<mapsto> busy_queue]\<rparr>\<rparr>"

text \<open>
  The head of \<open>node-b\<close>'s backlog names a task that has no stored record.
\<close>

definition dangling_world :: world where
  "dangling_world = example_world\<lparr>store :=
     \<lparr>tasks = Map.empty,
      queues = [''node-b'' \<mapsto> \<lparr>spriteName = ''node-b'', queuedTasks = [''ghost''],
                                currentTask = None, lastUpdated = 5\<rparr>]\<rparr>\<rparr>"





text \<open>A network in which one peer of \<open>node-b\<close> is named \<open>constructor\<close>.\<close>

definition constructor_world :: world where
  "constructor_world = example_world\<lparr>sprites := [''constructor'', ''node-b'', ''p2'']\<rparr>"

definition three_descriptions :: distribute_body where
  "three_descriptions =
     \<lparr>taskDescriptions = Some [\<lparr>d_title = ''A'', d_description = ''a''\<rparr>,
                               \<lparr>d_title = ''B'', d_description = ''b''\<rparr>,
                               \<lparr>d_title = ''C'', d_description = ''c''\<rparr>]\<rparr>"

section \<open>Runs of queue operations\<close>

text \<open>Successive \<open>addTaskToQueue\<close> calls for one node, in list order.\<close>

fun enqueue_all :: "string \<Rightarrow> string list \<Rightarrow> world \<Rightarrow> world" where
  "enqueue_all n [] w = w"
| "enqueue_all n (t # ts) w = enqueue_all n ts (snd (addTaskToQueue n t w))"

text \<open>The \<open>currentTask\<close> slot persisted for a node.\<close>

definition current_of :: "string \<Rightarrow> world \<Rightarrow> string option" where
  "current_of n w = (case queues (store w) n of None \<Rightarrow> None | Some q \<Rightarrow> currentTask q)"

text \<open>
  \<open>k\<close> successive \<open>getNextTask\<close> calls for one node; each is recorded with what it returned
  and the \<open>currentTask\<close> it left in the bucket.
\<close>

fun dequeue_times ::
    "nat \<Rightarrow> string \<Rightarrow> world \<Rightarrow> ((error + DistributedTask option) \<times> string option) list" where
  "dequeue_times 0 n w = []"
| "dequeue_times (Suc k) n w =
     (case getNextTask n w of (r, w1) \<Rightarrow> (r, current_of n w1) # dequeue_times k n w1)"

section \<open>The bucket after a creation\<close>

text \<open>
  What one \<open>createTask\<close> call leaves in the bucket, told from the record it returned and
  the clock reading \<open>t0\<close> of the call: the record is stored under its id, and its id
  stands at the tail of the queue found under \<open>assignedTo\<close> (a fresh queue if none is
  stored), which is written back under the name that queue carries.
\<close>

definition bucket_after_create :: "nat \<Rightarrow> DistributedTask \<Rightarrow> bucket \<Rightarrow> bucket" where
  "bucket_after_create t0 task b =
     (let q = (case queues b (assignedTo task) of
                 None \<Rightarrow> \<lparr>spriteName = assignedTo task, queuedTasks = [], currentTask = None,
                           lastUpdated = t0\<rparr>
               | Some q0 \<Rightarrow> q0)
      in b\<lparr>tasks := (tasks b)(id_task task \<mapsto> task),
           queues := (queues b)(spriteName q \<mapsto>
                        q\<lparr>queuedTasks := queuedTasks q @ [id_task task], lastUpdated := t0\<rparr>)\<rparr>)"

section \<open>Basic facts about the library\<close>

lemma getTask_eq:
  "getTask taskId w = (Inr r, w') \<longleftrightarrow>
     (\<not> notInitialized w \<and> r = tasks (store w) taskId \<and> w' = w)"
  by (auto simp: getTask_def)

lemma getTaskQueue_initialized:
  "getTaskQueue n w = (Inr q, w') \<Longrightarrow> \<not> notInitialized w"
  by (auto simp: getTaskQueue_def split: if_splits)

lemma initialized_enabled: "\<not> notInitialized w \<Longrightarrow> isTasksNetworkEnabled w"
  by (cases "bucketName w") (auto simp: notInitialized_def isTasksNetworkEnabled_def)

lemma repeat_fixed: "f w = w \<Longrightarrow> (f ^^ k) w = w"
  by (induction k) simp_all

lemma getTaskQueue_eq:
  "getTaskQueue n w = (Inr q, w') \<longleftrightarrow>
     (\<not> notInitialized w \<and> w' = w \<and>
      q = (case queues (store w) n of
             None \<Rightarrow> \<lparr>spriteName = n, queuedTasks = [], currentTask = None, lastUpdated = now w\<rparr>
           | Some q0 \<Rightarrow> q0))"
  by (auto simp: getTaskQueue_def split: option.splits)

lemma notInitialized_console_log [simp]: "notInitialized (console_log m w) = notInitialized w"
  by (simp add: notInitialized_def console_log_def)

lemma notInitialized_putTask [simp]: "notInitialized (putTask k t w) = notInitialized w"
  by (simp add: notInitialized_def putTask_def)

lemma notInitialized_putQueue [simp]: "notInitialized (putQueue k q w) = notInitialized w"
  by (simp add: notInitialized_def putQueue_def)

lemma store_console_log [simp]: "store (console_log m w) = store w"
  by (simp add: console_log_def)

lemma now_console_log [simp]: "now (console_log m w) = now w"
  by (simp add: console_log_def now_def)

lemma now_putTask [simp]: "now (putTask k t w) = now w"
  by (simp add: putTask_def now_def)

lemma now_putQueue [simp]: "now (putQueue k q w) = now w"
  by (simp add: putQueue_def now_def)

lemma tasks_putTask [simp]: "tasks (store (putTask k t w)) = (tasks (store w))(k \<mapsto> t)"
  by (simp add: putTask_def)

lemma queues_putTask [simp]: "queues (store (putTask k t w)) = queues (store w)"
  by (simp add: putTask_def)

lemma tasks_putQueue [simp]: "tasks (store (putQueue k q w)) = tasks (store w)"
  by (simp add: putQueue_def)

lemma queues_putQueue [simp]: "queues (store (putQueue k q w)) = (queues (store w))(k \<mapsto> q)"
  by (simp add: putQueue_def)

lemma updateTaskQueue_eq:
  "\<not> notInitialized w \<Longrightarrow>
   updateTaskQueue q w = (Inr (), console_log (''Updated task queue for '' @ spriteName q)
                      (putQueue (spriteName q) (q\<lparr>lastUpdated := now w\<rparr>) w))"
  by (simp add: updateTaskQueue_def)

lemma updateTask_eq:
  "\<not> notInitialized w \<Longrightarrow> tasks (store w) i = Some t \<Longrightarrow>
   updateTask i u w = (Inr (), console_log (''Updated task '' @ i) (putTask i (merge_task t u) w))"
  by (simp add: updateTask_def getTask_def)

lemma store_createTaskSession [simp]: "store (snd (createTaskSession t w)) = store w"
  by (simp add: createTaskSession_def Let_def)

lemma notInitialized_createTaskSession [simp]:
  "notInitialized (snd (createTaskSession t w)) = notInitialized w"
  by (simp add: createTaskSession_def Let_def notInitialized_def)


lemma merge_task_start [simp]:
  "result (merge_task t (no_updates\<lparr>u_status := Some InProgress, u_startedAt := Some k\<rparr>))
     = result t"
  "result (merge_task t (no_updates\<lparr>u_sessionId := Some sid\<rparr>)) = result t"
  "status (merge_task t (no_updates\<lparr>u_sessionId := Some sid\<rparr>)) = status t"
  by (simp_all add: merge_task_def no_updates_def)

lemma addTaskToQueue_eq:
  assumes "getTaskQueue n w = (Inr q, w)"
  shows "addTaskToQueue n t w =
     (Inr (), console_log (''Updated task queue for '' @ spriteName q)
        (putQueue (spriteName q)
           (q\<lparr>queuedTasks := queuedTasks q @ [t], lastUpdated := now w\<rparr>) w))"
  using assms getTaskQueue_initialized [OF assms]
  by (simp add: addTaskToQueue_def updateTaskQueue_eq)

lemma getNextTask_eq:
  assumes "getTaskQueue n w = (Inr q, w)" and "queuedTasks q = x # xs"
  shows "getNextTask n w =
     (Inr (tasks (store w) x), console_log (''Updated task queue for '' @ spriteName q)
        (putQueue (spriteName q)
           (q\<lparr>queuedTasks := xs, currentTask := Some x, lastUpdated := now w\<rparr>) w))"
  using assms getTaskQueue_initialized [OF assms(1)]
  by (simp add: getNextTask_def updateTaskQueue_eq getTask_def)

lemma getNextTask_empty:
  assumes "getTaskQueue n w = (Inr q, w)" and "queuedTasks q = []"
  shows "getNextTask n w = (Inr None, w)"
  using assms by (simp add: getNextTask_def)

lemma getTaskQueue_after_put:
  assumes "\<not> notInitialized w"
  shows "getTaskQueue n (console_log m (putQueue n q w)) = (Inr q, console_log m (putQueue n q w))"
  using assms by (simp add: getTaskQueue_def)

lemma enqueue_all_queue:
  assumes "getTaskQueue n w = (Inr q, w)" and "spriteName q = n"
  shows "\<exists>q'. getTaskQueue n (enqueue_all n ids w) = (Inr q', enqueue_all n ids w)
           \<and> spriteName q' = n \<and> queuedTasks q' = queuedTasks q @ ids
           \<and> currentTask q' = currentTask q
           \<and> tasks (store (enqueue_all n ids w)) = tasks (store w)"
  using assms
proof (induction ids arbitrary: w q)
  case Nil
  then show ?case by simp
next
  case (Cons t ts)
  let ?q1 = "q\<lparr>queuedTasks := queuedTasks q @ [t], lastUpdated := now w\<rparr>"
  let ?w1 = "console_log (''Updated task queue for '' @ n) (putQueue n ?q1 w)"
  have i: "\<not> notInitialized w" using Cons.prems(1) by (rule getTaskQueue_initialized)
  have step: "snd (addTaskToQueue n t w) = ?w1"
    using Cons.prems by (simp add: addTaskToQueue_eq)
  have g: "getTaskQueue n ?w1 = (Inr ?q1, ?w1)" using i by (rule getTaskQueue_after_put)
  have s: "spriteName ?q1 = n" using Cons.prems(2) by simp
  from Cons.IH [OF g s] step show ?case by simp
qed

lemma dequeue_times_queue:
  assumes "getTaskQueue n w = (Inr q, w)" and "spriteName q = n" and "queuedTasks q = xs"
  shows "dequeue_times (length xs) n w = map (\<lambda>i. (Inr (tasks (store w) i), Some i)) xs"
  using assms
proof (induction xs arbitrary: w q)
  case Nil
  then show ?case by simp
next
  case (Cons x xs)
  let ?q1 = "q\<lparr>queuedTasks := xs, currentTask := Some x, lastUpdated := now w\<rparr>"
  let ?w1 = "console_log (''Updated task queue for '' @ n) (putQueue n ?q1 w)"
  have i: "\<not> notInitialized w" using Cons.prems(1) by (rule getTaskQueue_initialized)
  have step: "getNextTask n w = (Inr (tasks (store w) x), ?w1)"
    using Cons.prems by (simp add: getNextTask_eq)
  have g: "getTaskQueue n ?w1 = (Inr ?q1, ?w1)" using i by (rule getTaskQueue_after_put)
  have s: "spriteName ?q1 = n" "queuedTasks ?q1 = xs" using Cons.prems(2) by simp_all
  have c: "current_of n ?w1 = Some x" by (simp add: current_of_def)
  from Cons.IH [OF g s] step c show ?case by simp
qed

lemma wakeCatch_facts [simp]:
  "store (snd (wakeCatch n w)) = store w"
  "notInitialized (snd (wakeCatch n w)) = notInitialized w"
  "now (snd (wakeCatch n w)) = now w"
  "uuidCount (snd (wakeCatch n w)) = uuidCount w"
  "uuidGen (snd (wakeCatch n w)) = uuidGen w"
  "wakeOutcome (snd (wakeCatch n w)) = wakeOutcome w"
  by (simp_all add: wakeCatch_def wakeAndNotifySprite_def console_log_def console_error_def
      notInitialized_def now_def split: wake_outcome.splits)

lemma wakeCatch_fst:
  "fst (wakeCatch n w) = (if wakeOutcome w n = SpawnFailed then Dies else Returns ())"
  by (simp add: wakeCatch_def wakeAndNotifySprite_def split: wake_outcome.splits)


lemma wakeBestEffort_facts [simp]:
  "store (wakeBestEffort n w) = store w"
  by (simp add: wakeBestEffort_def console_log_def console_error_def
      split: wake_outcome.splits)

lemma uuidCount_update_facts [simp]:
  "notInitialized (w\<lparr>uuidCount := k\<rparr>) = notInitialized w"
  "now (w\<lparr>uuidCount := k\<rparr>) = now w"
  by (simp_all add: notInitialized_def now_def)

text \<open>The record \<open>createTask\<close> builds and the state it leaves.\<close>

lemma createTask_eq:
  assumes "getTaskQueue (n_assignedTo nt) w = (Inr q, w)"
  shows "createTask nt w =
     (Inr \<lparr>id_task = uuidGen w (uuidCount w), assignedTo = n_assignedTo nt,
           assignedBy = n_assignedBy nt, status = Pending, title = n_title nt,
           description = n_description nt, createdAt = now w, startedAt = None,
           completedAt = None, sessionId = None, result = None\<rparr>,
      console_log (''Created task '' @ uuidGen w (uuidCount w) @ '' for '' @ n_assignedTo nt)
        (console_log (''Updated task queue for '' @ spriteName q)
           (putQueue (spriteName q)
              (q\<lparr>queuedTasks := queuedTasks q @ [uuidGen w (uuidCount w)],
                 lastUpdated := now w\<rparr>)
              (putTask (uuidGen w (uuidCount w))
                 \<lparr>id_task = uuidGen w (uuidCount w), assignedTo = n_assignedTo nt,
                  assignedBy = n_assignedBy nt, status = Pending, title = n_title nt,
                  description = n_description nt, createdAt = now w, startedAt = None,
                  completedAt = None, sessionId = None, result = None\<rparr>
                 (w\<lparr>uuidCount := Suc (uuidCount w)\<rparr>)))))"
proof -
  have i: "\<not> notInitialized w" using assms by (rule getTaskQueue_initialized)
  have q: "q = (case queues (store w) (n_assignedTo nt) of
             None \<Rightarrow> \<lparr>spriteName = n_assignedTo nt, queuedTasks = [], currentTask = None,
                       lastUpdated = now w\<rparr>
           | Some q0 \<Rightarrow> q0)"
    using assms by (simp add: getTaskQueue_eq)
  have i': "\<not> notInitialized (w\<lparr>uuidCount := Suc (uuidCount w)\<rparr>)"
    using i by (simp add: notInitialized_def)
  have n': "now (w\<lparr>uuidCount := Suc (uuidCount w)\<rparr>) = now w" by (simp add: now_def)
  have g: "getTaskQueue (n_assignedTo nt) (putTask k t (w\<lparr>uuidCount := Suc (uuidCount w)\<rparr>))
         = (Inr q, putTask k t (w\<lparr>uuidCount := Suc (uuidCount w)\<rparr>))" for k t
    using i' q by (simp add: getTaskQueue_def n' split: option.splits)
  show ?thesis
    using i by (simp add: createTask_def randomUUID_def Let_def addTaskToQueue_eq [OF g] n')
qed

lemma getTaskQueue_total:
  "\<not> notInitialized w \<Longrightarrow> \<exists>q. getTaskQueue n w = (Inr q, w)"
  by (simp add: getTaskQueue_def split: option.splits)

lemma createTask_props:
  assumes "\<not> notInitialized w"
  shows "\<exists>task w'. createTask nt w = (Inr task, w') \<and> \<not> notInitialized w'
           \<and> assignedTo task = n_assignedTo nt \<and> assignedBy task = n_assignedBy nt
           \<and> title task = n_title nt \<and> description task = n_description nt
           \<and> status task = Pending \<and> id_task task = uuidGen w (uuidCount w)
           \<and> store w' = bucket_after_create (now w) task (store w)
           \<and> now w' = now w \<and> uuidGen w' = uuidGen w \<and> uuidCount w' = Suc (uuidCount w)
           \<and> wakeOutcome w' = wakeOutcome w"
proof -
  obtain q where q: "getTaskQueue (n_assignedTo nt) w = (Inr q, w)"
    using getTaskQueue_total [OF assms] by blast
  have q': "q = (case queues (store w) (n_assignedTo nt) of
             None \<Rightarrow> \<lparr>spriteName = n_assignedTo nt, queuedTasks = [], currentTask = None,
                       lastUpdated = now w\<rparr>
           | Some q0 \<Rightarrow> q0)"
    using q by (simp add: getTaskQueue_eq)
  show ?thesis
    using assms q'
    by (cases "queues (store w) (n_assignedTo nt)")
      (simp_all add: createTask_eq [OF q] bucket_after_create_def Let_def
        putQueue_def putTask_def console_log_def notInitialized_def now_def)
qed

lemma distribute_loop_props:
  assumes "\<not> notInitialized w" and "avail \<noteq> []"
    and "\<forall>p\<in>set avail. wakeOutcome w p \<noteq> SpawnFailed"
  shows "\<exists>ts w'. distribute_loop i ds avail assigner created w = (Returns (created @ ts), w')
           \<and> length ts = length ds
           \<and> (\<forall>j<length ds. assignedTo (ts ! j) = avail ! ((i + j) mod length avail)
                  \<and> assignedBy (ts ! j) = assigner
                  \<and> title (ts ! j) = d_title (ds ! j)
                  \<and> description (ts ! j) = d_description (ds ! j)
                  \<and> status (ts ! j) = Pending
                  \<and> id_task (ts ! j) = uuidGen w (uuidCount w + j))
           \<and> store w' = foldl (\<lambda>b t. bucket_after_create (now w) t b) (store w) ts"
  using assms
proof (induction ds arbitrary: i created w)
  case Nil
  then show ?case by simp
next
  case (Cons d ds)
  let ?target = "avail ! (i mod length avail)"
  let ?nt = "\<lparr>n_assignedTo = ?target, n_assignedBy = assigner, n_title = d_title d,
              n_description = d_description d\<rparr>"
  obtain task w1 where c: "createTask ?nt w = (Inr task, w1)" "\<not> notInitialized w1"
      "assignedTo task = ?target" "assignedBy task = assigner" "title task = d_title d"
      "description task = d_description d" "status task = Pending"
      "id_task task = uuidGen w (uuidCount w)"
      "store w1 = bucket_after_create (now w) task (store w)"
      "now w1 = now w" "uuidGen w1 = uuidGen w" "uuidCount w1 = Suc (uuidCount w)"
      "wakeOutcome w1 = wakeOutcome w"
    using createTask_props [OF Cons.prems(1), of ?nt] by auto
  have mem: "?target \<in> set avail" using Cons.prems(2) by simp
  obtain w2 where alive: "wakeCatch ?target w1 = (Returns (), w2)"
    using Cons.prems(3) mem c(13) wakeCatch_fst [of ?target w1]
    by (cases "wakeCatch ?target w1") simp
  have w2: "store w2 = store w1" "notInitialized w2 = notInitialized w1" "now w2 = now w1"
      "uuidCount w2 = uuidCount w1" "uuidGen w2 = uuidGen w1" "wakeOutcome w2 = wakeOutcome w1"
    using wakeCatch_facts [of ?target w1] alive by simp_all
  have i2: "\<not> notInitialized w2" using c(2) w2(2) by simp
  have o2: "\<forall>p\<in>set avail. wakeOutcome w2 p \<noteq> SpawnFailed"
    using Cons.prems(3) c(13) w2(6) by simp
  obtain ts w' where r:
      "distribute_loop (Suc i) ds avail assigner (created @ [task]) w2
         = (Returns ((created @ [task]) @ ts), w')"
      "length ts = length ds"
      "\<forall>j<length ds. assignedTo (ts ! j) = avail ! ((Suc i + j) mod length avail)
                  \<and> assignedBy (ts ! j) = assigner
                  \<and> title (ts ! j) = d_title (ds ! j)
                  \<and> description (ts ! j) = d_description (ds ! j)
                  \<and> status (ts ! j) = Pending
                  \<and> id_task (ts ! j) = uuidGen w2 (uuidCount w2 + j)"
      "store w' = foldl (\<lambda>b t. bucket_after_create (now w2) t b) (store w2) ts"
    using Cons.IH [OF i2 Cons.prems(2) o2, of "Suc i" "created @ [task]"] by blast
  have run: "distribute_loop i (d # ds) avail assigner created w
               = (Returns (created @ task # ts), w')"
    using c(1) alive r(1) by (simp add: Let_def)
  have each: "assignedTo ((task # ts) ! j) = avail ! ((i + j) mod length avail)
                  \<and> assignedBy ((task # ts) ! j) = assigner
                  \<and> title ((task # ts) ! j) = d_title ((d # ds) ! j)
                  \<and> description ((task # ts) ! j) = d_description ((d # ds) ! j)
                  \<and> status ((task # ts) ! j) = Pending
                  \<and> id_task ((task # ts) ! j) = uuidGen w (uuidCount w + j)"
    if "j < length (d # ds)" for j
  proof (cases j)
    case 0
    then show ?thesis using c by simp
  next
    case (Suc j')
    then have "j' < length ds" using that by simp
    with r(3) Suc c(11,12) w2(4,5) show ?thesis by simp
  qed
  have bucket: "store w' = foldl (\<lambda>b t. bucket_after_create (now w) t b) (store w) (task # ts)"
    using r(4) c(9,10) w2(1,3) by simp
  from run r(2) each bucket show ?case
    by (intro exI [of _ "task # ts"] exI [of _ w']) simp
qed

text \<open>What the summary holds for a key after a pass over the created tasks.\<close>

lemma count_key_other: "k \<noteq> p \<Longrightarrow> count_key k m p = m p"
  by (auto simp: count_key_def split: option.splits tally.splits)

lemma count_key_same:
  "count_key p m p =
     (case m p of
        Some (Count c) \<Rightarrow> Some (Count (c + 1))
      | Some (Garbled g n) \<Rightarrow> Some (Garbled g (n + 1))
      | None \<Rightarrow> if p = ''__proto__'' then None
                else if p \<in> set objectPrototypeMembers then Some (Garbled p 1)
                else Some (Count 1))"
  by (simp add: count_key_def split: option.splits tally.splits)

lemma summarize_loop_count:
  "summarize_loop ts m p =
     (if count_list (map assignedTo ts) p = 0 then m p
      else case m p of
             Some (Count c) \<Rightarrow> Some (Count (c + count_list (map assignedTo ts) p))
           | Some (Garbled g n) \<Rightarrow> Some (Garbled g (n + count_list (map assignedTo ts) p))
           | None \<Rightarrow>
               if p = ''__proto__'' then None
               else if p \<in> set objectPrototypeMembers
               then Some (Garbled p (count_list (map assignedTo ts) p))
               else Some (Count (count_list (map assignedTo ts) p)))"
proof (induction ts arbitrary: m)
  case Nil
  then show ?case by simp
next
  case (Cons t ts)
  show ?case
  proof (cases "assignedTo t = p")
    case True
    then show ?thesis
      by (auto simp: Cons.IH count_key_same split: option.splits tally.splits)
  next
    case False
    then show ?thesis
      by (auto simp: Cons.IH count_key_other split: option.splits tally.splits)
  qed
qed

section \<open>The claims\<close>

text \<open>
  C1. While the queue that \<open>getTaskQueue\<close> returns for this node has a (truthy)
  \<open>currentTask\<close>, \<open>checkForTasks\<close> answers "Already working on a task" with that id and
  returns the state it was given: nothing is dequeued, and the task registry, every node
  queue and everything else are as before. So any number of calls leaves the state
  unchanged and every one of them gives the same answer.
\<close>

theorem checkForTasks_idempotent:
  assumes "getTaskQueue (getHostname w) w = (Inr q, w)"
    and "currentTask q = Some cur" and "cur \<noteq> []"
  shows "checkForTasks w = (Inr (OkResponse (AlreadyWorking cur)), w)
       \<and> ((\<lambda>v. snd (checkForTasks v)) ^^ k) w = w
       \<and> checkForTasks (((\<lambda>v. snd (checkForTasks v)) ^^ k) w)
           = (Inr (OkResponse (AlreadyWorking cur)), w)"
proof -
  have en: "isTasksNetworkEnabled w"
    using assms(1) by (blast intro: initialized_enabled dest: getTaskQueue_initialized)
  have one: "checkForTasks w = (Inr (OkResponse (AlreadyWorking cur)), w)"
    using assms en by (simp add: checkForTasks_def)
  then have "(\<lambda>v. snd (checkForTasks v)) w = w" by simp
  then have "((\<lambda>v. snd (checkForTasks v)) ^^ k) w = w" by (rule repeat_fixed)
  with one show ?thesis by simp
qed

theorem checkForTasks_idempotent_witness:
  "getTaskQueue (getHostname busy_world) busy_world = (Inr busy_queue, busy_world)
   \<and> currentTask busy_queue = Some ''t1''
   \<and> checkForTasks busy_world = (Inr (OkResponse (AlreadyWorking ''t1'')), busy_world)
   \<and> checkForTasks (snd (checkForTasks (snd (checkForTasks busy_world))))
       = (Inr (OkResponse (AlreadyWorking ''t1'')), busy_world)"
proof -
  have h1: "getTaskQueue (getHostname busy_world) busy_world = (Inr busy_queue, busy_world)"
    by (simp add: getTaskQueue_def getHostname_def busy_world_def example_world_def
        notInitialized_def)
  have h2: "currentTask busy_queue = Some ''t1''" by (simp add: busy_queue_def)
  have h3: "''t1'' \<noteq> ([] :: string)" by simp
  show ?thesis
    using checkForTasks_idempotent [OF h1 h2 h3, of 2] h1 h2
    by (simp add: numeral_2_eq_2)
qed

text \<open>
  C8. \<open>updateTask\<close> on an id under which \<open>getTask\<close> finds no record fails with the
  not-found error and returns the state unchanged. On an id with a stored record it
  succeeds and writes, under that id, the stored record merged with the updates; no other
  task record and no queue changes. In the merged record a field named in the updates has
  the new value and a field not named has the stored one.
\<close>

theorem updateTask_merges:
  "(getTask taskId w = (Inr None, w) \<longrightarrow>
      updateTask taskId u w = (Inl (TaskNotFound taskId), w))
   \<and> (getTask taskId w = (Inr (Some t), w) \<longrightarrow>
        fst (updateTask taskId u w) = Inr ()
      \<and> tasks (store (snd (updateTask taskId u w))) = (tasks (store w))(taskId \<mapsto> merge_task t u)
      \<and> queues (store (snd (updateTask taskId u w))) = queues (store w))
   \<and> id_task (merge_task t u) = (case u_id u of None \<Rightarrow> id_task t | Some v \<Rightarrow> v)
   \<and> assignedTo (merge_task t u) = (case u_assignedTo u of None \<Rightarrow> assignedTo t | Some v \<Rightarrow> v)
   \<and> assignedBy (merge_task t u) = (case u_assignedBy u of None \<Rightarrow> assignedBy t | Some v \<Rightarrow> v)
   \<and> status (merge_task t u) = (case u_status u of None \<Rightarrow> status t | Some v \<Rightarrow> v)
   \<and> title (merge_task t u) = (case u_title u of None \<Rightarrow> title t | Some v \<Rightarrow> v)
   \<and> description (merge_task t u)
       = (case u_description u of None \<Rightarrow> description t | Some v \<Rightarrow> v)
   \<and> createdAt (merge_task t u) = (case u_createdAt u of None \<Rightarrow> createdAt t | Some v \<Rightarrow> v)
   \<and> startedAt (merge_task t u)
       = (case u_startedAt u of None \<Rightarrow> startedAt t | Some v \<Rightarrow> Some v)
   \<and> completedAt (merge_task t u)
       = (case u_completedAt u of None \<Rightarrow> completedAt t | Some v \<Rightarrow> Some v)
   \<and> sessionId (merge_task t u)
       = (case u_sessionId u of None \<Rightarrow> sessionId t | Some v \<Rightarrow> Some v)
   \<and> result (merge_task t u) = (case u_result u of None \<Rightarrow> result t | Some v \<Rightarrow> Some v)
   \<and> merge_task t no_updates = t"
proof -
  have missing: "getTask taskId w = (Inr None, w) \<longrightarrow>
      updateTask taskId u w = (Inl (TaskNotFound taskId), w)"
    by (auto simp: getTask_eq updateTask_def getTask_def)
  have stored: "getTask taskId w = (Inr (Some t), w) \<longrightarrow>
        fst (updateTask taskId u w) = Inr ()
      \<and> tasks (store (snd (updateTask taskId u w))) = (tasks (store w))(taskId \<mapsto> merge_task t u)
      \<and> queues (store (snd (updateTask taskId u w))) = queues (store w)"
    by (auto simp: getTask_eq updateTask_def getTask_def console_log_def putTask_def)
  have fields: "merge_task t no_updates = t"
    by (simp add: merge_task_def no_updates_def)
  from missing stored fields show ?thesis
    by (simp add: merge_task_def)
qed

theorem updateTask_merges_witness:
  "getTask ''t9'' busy_world = (Inr None, busy_world)
   \<and> updateTask ''t9'' (no_updates\<lparr>u_status := Some Failed\<rparr>) busy_world
       = (Inl (TaskNotFound ''t9''), busy_world)
   \<and> getTask ''t1'' busy_world = (Inr (Some example_task), busy_world)
   \<and> fst (updateTask ''t1'' (no_updates\<lparr>u_status := Some Failed\<rparr>) busy_world) = Inr ()
   \<and> tasks (store (snd (updateTask ''t1'' (no_updates\<lparr>u_status := Some Failed\<rparr>) busy_world))) ''t1''
       = Some (example_task\<lparr>status := Failed\<rparr>)"
proof -
  have h1: "getTask ''t9'' busy_world = (Inr None, busy_world)"
    by (simp add: getTask_def busy_world_def example_world_def notInitialized_def)
  have h2: "getTask ''t1'' busy_world = (Inr (Some example_task), busy_world)"
    by (simp add: getTask_def busy_world_def example_world_def notInitialized_def)
  have m: "merge_task example_task (no_updates\<lparr>u_status := Some Failed\<rparr>)
             = example_task\<lparr>status := Failed\<rparr>"
    by (simp add: merge_task_def no_updates_def example_task_def)
  show ?thesis
    using updateTask_merges [of "''t9''" busy_world "no_updates\<lparr>u_status := Some Failed\<rparr>" example_task]
      updateTask_merges [of "''t1''" busy_world "no_updates\<lparr>u_status := Some Failed\<rparr>" example_task]
      h1 h2 m
    by simp
qed

text \<open>
  C9. Let the queue of this node have no (truthy) \<open>currentTask\<close> and a backlog whose head
  \<open>x\<close> has no stored task record. Then \<open>checkForTasks\<close> answers "No pending tasks", and
  the state it leaves has the head removed from the backlog and \<open>currentTask\<close> set to \<open>x\<close>
  in the persisted queue, while the task registry is untouched: no record is stored under
  \<open>x\<close>, so none is \<open>in_progress\<close>.
\<close>

theorem checkForTasks_dangling_head:
  assumes "getTaskQueue (getHostname w) w = (Inr q, w)" and "spriteName q = getHostname w"
    and "\<not> truthy (currentTask q)" and "queuedTasks q = x # xs"
    and "getTask x w = (Inr None, w)"
  shows "fst (checkForTasks w) = Inr (OkResponse NoPendingTasks)
     \<and> queues (store (snd (checkForTasks w)))
         = (queues (store w))(getHostname w \<mapsto>
              q\<lparr>queuedTasks := xs, currentTask := Some x, lastUpdated := now w\<rparr>)
     \<and> tasks (store (snd (checkForTasks w))) = tasks (store w)
     \<and> tasks (store (snd (checkForTasks w))) x = None"
proof -
  have i: "\<not> notInitialized w" using assms(1) by (rule getTaskQueue_initialized)
  have en: "isTasksNetworkEnabled w" using i by (rule initialized_enabled)
  have x: "tasks (store w) x = None" using assms(5) by (simp add: getTask_eq)
  have n: "getNextTask (getHostname w) w
         = (Inr None, console_log (''Updated task queue for '' @ getHostname w)
              (putQueue (getHostname w)
                 (q\<lparr>queuedTasks := xs, currentTask := Some x, lastUpdated := now w\<rparr>) w))"
    using assms(1,2,4) i x by (simp add: getNextTask_def updateTaskQueue_eq getTask_def)
  show ?thesis using assms(1,3) en n x
    by (simp add: checkForTasks_def)
qed

theorem checkForTasks_dangling_head_witness:
  "getTaskQueue (getHostname dangling_world) dangling_world
     = (Inr \<lparr>spriteName = ''node-b'', queuedTasks = [''ghost''], currentTask = None,
             lastUpdated = 5\<rparr>, dangling_world)
   \<and> getTask ''ghost'' dangling_world = (Inr None, dangling_world)
   \<and> fst (checkForTasks dangling_world) = Inr (OkResponse NoPendingTasks)
   \<and> queues (store (snd (checkForTasks dangling_world))) ''node-b''
       = Some \<lparr>spriteName = ''node-b'', queuedTasks = [], currentTask = Some ''ghost'',
               lastUpdated = 7\<rparr>
   \<and> tasks (store (snd (checkForTasks dangling_world))) ''ghost'' = None"
proof -
  have h1: "getTaskQueue (getHostname dangling_world) dangling_world
     = (Inr \<lparr>spriteName = ''node-b'', queuedTasks = [''ghost''], currentTask = None,
             lastUpdated = 5\<rparr>, dangling_world)"
    by (simp add: getTaskQueue_def getHostname_def dangling_world_def example_world_def
        notInitialized_def)
  have h2: "spriteName \<lparr>spriteName = ''node-b'', queuedTasks = [''ghost''], currentTask = None,
             lastUpdated = 5\<rparr> = getHostname dangling_world"
    by (simp add: getHostname_def dangling_world_def example_world_def)
  have h3: "\<not> truthy (currentTask \<lparr>spriteName = ''node-b'', queuedTasks = [''ghost''],
             currentTask = None, lastUpdated = 5\<rparr>)"
    by simp
  have h4: "queuedTasks \<lparr>spriteName = ''node-b'', queuedTasks = [''ghost''],
             currentTask = None, lastUpdated = 5\<rparr> = ''ghost'' # []"
    by simp
  have h5: "getTask ''ghost'' dangling_world = (Inr None, dangling_world)"
    by (simp add: getTask_def dangling_world_def example_world_def notInitialized_def)
  have e: "getHostname dangling_world = ''node-b''" "now dangling_world = 7"
      "tasks (store dangling_world) ''ghost'' = None"
    by (simp_all add: getHostname_def now_def dangling_world_def example_world_def)
  show ?thesis
    using checkForTasks_dangling_head [OF h1 h2 h3 h4 h5] h1 h5 e
    by simp
qed






text \<open>
  C3. For a node whose stored queue carries its own name: \<open>addTaskToQueue\<close> writes the
  queue back with the id appended at the tail of \<open>queuedTasks\<close>; \<open>getNextTask\<close> on a
  non-empty backlog writes it back with exactly the head removed and made \<open>currentTask\<close>,
  and returns the record stored under that head (on an empty backlog it returns nothing and
  writes nothing). Hence, after enqueuing \<open>ids\<close> one by one, as many dequeues as the backlog
  has entries hand out the earlier backlog followed by \<open>ids\<close>, in that order: the i-th
  dequeue makes the i-th id \<open>currentTask\<close> and returns its record.
\<close>

theorem queue_fifo:
  assumes "getTaskQueue n w = (Inr q, w)" and "spriteName q = n"
  shows "fst (addTaskToQueue n t w) = Inr ()
     \<and> queues (store (snd (addTaskToQueue n t w)))
         = (queues (store w))(n \<mapsto> q\<lparr>queuedTasks := queuedTasks q @ [t], lastUpdated := now w\<rparr>)
     \<and> tasks (store (snd (addTaskToQueue n t w))) = tasks (store w)
     \<and> (queuedTasks q = x # xs \<longrightarrow>
          fst (getNextTask n w) = Inr (tasks (store w) x)
        \<and> queues (store (snd (getNextTask n w)))
            = (queues (store w))(n \<mapsto>
                 q\<lparr>queuedTasks := xs, currentTask := Some x, lastUpdated := now w\<rparr>)
        \<and> tasks (store (snd (getNextTask n w))) = tasks (store w))
     \<and> (queuedTasks q = [] \<longrightarrow> getNextTask n w = (Inr None, w))
     \<and> dequeue_times (length (queuedTasks q @ ids)) n (enqueue_all n ids w)
         = map (\<lambda>i. (Inr (tasks (store w) i), Some i)) (queuedTasks q @ ids)"
proof -
  have enq: "fst (addTaskToQueue n t w) = Inr ()
     \<and> queues (store (snd (addTaskToQueue n t w)))
         = (queues (store w))(n \<mapsto> q\<lparr>queuedTasks := queuedTasks q @ [t], lastUpdated := now w\<rparr>)
     \<and> tasks (store (snd (addTaskToQueue n t w))) = tasks (store w)"
    using assms by (simp add: addTaskToQueue_eq [OF assms(1)])
  have deq: "queuedTasks q = x # xs \<longrightarrow>
          fst (getNextTask n w) = Inr (tasks (store w) x)
        \<and> queues (store (snd (getNextTask n w)))
            = (queues (store w))(n \<mapsto>
                 q\<lparr>queuedTasks := xs, currentTask := Some x, lastUpdated := now w\<rparr>)
        \<and> tasks (store (snd (getNextTask n w))) = tasks (store w)"
    using assms by (simp add: getNextTask_eq [OF assms(1)])
  have emp: "queuedTasks q = [] \<longrightarrow> getNextTask n w = (Inr None, w)"
    using assms(1) by (simp add: getNextTask_empty)
  obtain q' where q': "getTaskQueue n (enqueue_all n ids w) = (Inr q', enqueue_all n ids w)"
      "spriteName q' = n" "queuedTasks q' = queuedTasks q @ ids"
      "tasks (store (enqueue_all n ids w)) = tasks (store w)"
    using enqueue_all_queue [OF assms, of ids] by blast
  have run: "dequeue_times (length (queuedTasks q @ ids)) n (enqueue_all n ids w)
         = map (\<lambda>i. (Inr (tasks (store w) i), Some i)) (queuedTasks q @ ids)"
    using dequeue_times_queue [OF q'(1,2,3)] q'(4) by simp
  from enq deq emp run show ?thesis by blast
qed

theorem queue_fifo_witness:
  "getTaskQueue ''node-b'' busy_world = (Inr busy_queue, busy_world)
   \<and> spriteName busy_queue = ''node-b''
   \<and> queuedTasks busy_queue = ''t2'' # []
   \<and> fst (getNextTask ''node-b'' busy_world) = Inr None
   \<and> queues (store (snd (getNextTask ''node-b'' busy_world))) ''node-b''
       = Some (busy_queue\<lparr>queuedTasks := [], currentTask := Some ''t2'', lastUpdated := 7\<rparr>)
   \<and> dequeue_times 3 ''node-b'' (enqueue_all ''node-b'' [''t1'', ''t3''] busy_world)
       = [(Inr None, Some ''t2''), (Inr (Some example_task), Some ''t1''),
          (Inr None, Some ''t3'')]"
proof -
  have h1: "getTaskQueue ''node-b'' busy_world = (Inr busy_queue, busy_world)"
    by (simp add: getTaskQueue_def busy_world_def example_world_def notInitialized_def)
  have h2: "spriteName busy_queue = ''node-b''" by (simp add: busy_queue_def)
  have e: "queuedTasks busy_queue = [''t2'']" "now busy_world = 7"
      "tasks (store busy_world) ''t1'' = Some example_task"
      "tasks (store busy_world) ''t2'' = None" "tasks (store busy_world) ''t3'' = None"
    by (simp_all add: busy_queue_def busy_world_def example_world_def now_def)
  show ?thesis
    using queue_fifo [OF h1 h2, of "''t9''" "''t2''" "[]" "[''t1'', ''t3'']"] h1 h2 e
    by (simp add: numeral_3_eq_3)
qed




text \<open>
  The route \<open>distributeTasks\<close> on a configured store, for a non-empty list of
  descriptions, with \<open>peers\<close> the discovered sprites other than this host, in discovery
  order. If \<open>peers\<close> is empty it answers the client error "No other sprites available in
  network" (status 400) and changes nothing. Otherwise, provided the child process of every
  wake closes, it answers with one created task per description, in order: the i-th task
  carries the i-th title and description, has the i-th next draw of \<open>randomUUID\<close> as its
  id and is assigned to \<open>peers[i mod len(peers)]\<close>; the bucket afterwards is the earlier
  bucket with each of these tasks, in order, stored and queued for its assignee. The
  summary has no entry for a name that received no task and none for \<open>__proto__\<close>; for a
  name that is a member of \<open>Object.prototype\<close> it holds a string, and for every other
  name the number of tasks that peer received.
\<close>

proposition distributeTasks_round_robin:
  assumes "\<not> notInitialized w" and "taskDescriptions body = Some descs" and "descs \<noteq> []"
    and "peers = filter (\<lambda>s. s \<noteq> getHostname w) (sprites w)"
  shows "(peers = [] \<longrightarrow>
            distributeTasks body w
              = (Returns (ErrorResponse ''No other sprites available in network'' 400), w))
     \<and> (peers \<noteq> [] \<and> (\<forall>p\<in>set peers. wakeOutcome w p \<noteq> SpawnFailed) \<longrightarrow>
          (\<exists>ts w'. distributeTasks body w
                       = (Returns (OkResponse (ts, summarizeDistribution ts)), w')
             \<and> length ts = length descs
             \<and> (\<forall>i<length descs. assignedTo (ts ! i) = peers ! (i mod length peers)
                    \<and> title (ts ! i) = d_title (descs ! i)
                    \<and> description (ts ! i) = d_description (descs ! i)
                    \<and> assignedBy (ts ! i) = getHostname w
                    \<and> status (ts ! i) = Pending
                    \<and> id_task (ts ! i) = uuidGen w (uuidCount w + i))
             \<and> map assignedTo ts = map (\<lambda>i. peers ! (i mod length peers)) [0..<length descs]
             \<and> store w' = foldl (\<lambda>b t. bucket_after_create (now w) t b) (store w) ts
             \<and> (\<forall>p. summarizeDistribution ts p
                      = (if count_list (map assignedTo ts) p = 0 \<or> p = ''__proto__'' then None
                         else if p \<in> set objectPrototypeMembers
                         then Some (Garbled p (count_list (map assignedTo ts) p))
                         else Some (Count (count_list (map assignedTo ts) p))))))"
proof -
  have en: "isTasksNetworkEnabled w" using assms(1) by (rule initialized_enabled)
  have p: "filter (\<lambda>s. s \<noteq> getHostname w) (sprites w) = peers"
    using assms(4) by simp
  have none: "peers = [] \<longrightarrow>
            distributeTasks body w
              = (Returns (ErrorResponse ''No other sprites available in network'' 400), w)"
    using assms(2,3) en by (simp add: distributeTasks_def Let_def p)
  have some: "\<exists>ts w'. distributeTasks body w
                       = (Returns (OkResponse (ts, summarizeDistribution ts)), w')
             \<and> length ts = length descs
             \<and> (\<forall>i<length descs. assignedTo (ts ! i) = peers ! (i mod length peers)
                    \<and> title (ts ! i) = d_title (descs ! i)
                    \<and> description (ts ! i) = d_description (descs ! i)
                    \<and> assignedBy (ts ! i) = getHostname w
                    \<and> status (ts ! i) = Pending
                    \<and> id_task (ts ! i) = uuidGen w (uuidCount w + i))
             \<and> map assignedTo ts = map (\<lambda>i. peers ! (i mod length peers)) [0..<length descs]
             \<and> store w' = foldl (\<lambda>b t. bucket_after_create (now w) t b) (store w) ts
             \<and> (\<forall>p. summarizeDistribution ts p
                      = (if count_list (map assignedTo ts) p = 0 \<or> p = ''__proto__'' then None
                         else if p \<in> set objectPrototypeMembers
                         then Some (Garbled p (count_list (map assignedTo ts) p))
                         else Some (Count (count_list (map assignedTo ts) p))))"
    if ne: "peers \<noteq> []" and alive: "\<forall>p\<in>set peers. wakeOutcome w p \<noteq> SpawnFailed"
  proof -
    obtain ts w' where r:
        "distribute_loop 0 descs peers (getHostname w) [] w = (Returns ([] @ ts), w')"
        "length ts = length descs"
        "\<forall>j<length descs. assignedTo (ts ! j) = peers ! ((0 + j) mod length peers)
                  \<and> assignedBy (ts ! j) = getHostname w
                  \<and> title (ts ! j) = d_title (descs ! j)
                  \<and> description (ts ! j) = d_description (descs ! j)
                  \<and> status (ts ! j) = Pending
                  \<and> id_task (ts ! j) = uuidGen w (uuidCount w + j)"
        "store w' = foldl (\<lambda>b t. bucket_after_create (now w) t b) (store w) ts"
      using distribute_loop_props [OF assms(1) ne alive, of 0 descs "getHostname w" "[]"]
      by blast
    have run: "distributeTasks body w
                 = (Returns (OkResponse (ts, summarizeDistribution ts)), w')"
      using assms(2,3) en ne r(1) by (simp add: distributeTasks_def Let_def p)
    have seq: "map assignedTo ts = map (\<lambda>i. peers ! (i mod length peers)) [0..<length descs]"
      using r(2,3) by (intro nth_equalityI) simp_all
    have summary: "summarizeDistribution ts p
                      = (if count_list (map assignedTo ts) p = 0 \<or> p = ''__proto__'' then None
                         else if p \<in> set objectPrototypeMembers
                         then Some (Garbled p (count_list (map assignedTo ts) p))
                         else Some (Count (count_list (map assignedTo ts) p)))" for p
      by (simp add: summarizeDistribution_def summarize_loop_count)
    from run r(2,3,4) seq summary show ?thesis
      by (intro exI [of _ ts] exI [of _ w']) simp
  qed
  from none some show ?thesis by blast
qed

text \<open>
  C4 fails on the code for a peer whose name is a member of \<open>Object.prototype\<close>. With the
  peers \<open>[constructor, p2]\<close> and three descriptions, \<open>distributeTasks\<close> assigns the tasks
  to \<open>constructor\<close>, \<open>p2\<close>, \<open>constructor\<close> and queues them so, but the summary it
  returns holds for \<open>constructor\<close> a string (the text of the inherited member followed by
  \<open>11\<close>) where the claim has the count 2. With the peers \<open>[p1, p2]\<close> the same request
  gives the sequence \<open>p1\<close>, \<open>p2\<close>, \<open>p1\<close> and the summary \<open>{p1: 2, p2: 1}\<close>.
\<close>

theorem distributeTasks_constructor_summary:
  "(case fst (distributeTasks three_descriptions constructor_world) of
      Returns (OkResponse (ts, d)) \<Rightarrow>
        map assignedTo ts = [''constructor'', ''p2'', ''constructor'']
      \<and> map id_task ts = [''task-'', ''task-i'', ''task-ii'']
      \<and> d ''constructor'' = Some (Garbled ''constructor'' 2)
      \<and> d ''constructor'' \<noteq> Some (Count 2)
      \<and> d ''p2'' = Some (Count 1)
    | _ \<Rightarrow> False)
   \<and> map_option queuedTasks
         (queues (store (snd (distributeTasks three_descriptions constructor_world)))
            ''constructor'')
       = Some [''task-'', ''task-ii'']
   \<and> map_option queuedTasks
         (queues (store (snd (distributeTasks three_descriptions constructor_world))) ''p2'')
       = Some [''task-i'']
   \<and> (case fst (distributeTasks three_descriptions example_world) of
        Returns (OkResponse (ts, d)) \<Rightarrow>
          map assignedTo ts = [''p1'', ''p2'', ''p1'']
        \<and> d ''p1'' = Some (Count 2) \<and> d ''p2'' = Some (Count 1)
      | _ \<Rightarrow> False)"
  by (simp add: distributeTasks_def three_descriptions_def constructor_world_def
        example_world_def example_uuid_def isTasksNetworkEnabled_def getHostname_def Let_def
        createTask_def randomUUID_def notInitialized_def now_def addTaskToQueue_def
        getTaskQueue_def updateTaskQueue_def putTask_def putQueue_def console_log_def
        console_error_def wakeCatch_def wakeAndNotifySprite_def summarizeDistribution_def
        count_key_def objectPrototypeMembers_def)

text \<open>
  C6 (on the specification's \<open>cancelTask\<close>). For an id with a stored task record,
  \<open>cancelTask\<close> succeeds and leaves that record with status \<open>cancelled\<close> and otherwise
  as it was. Every stored node queue is afterwards free of the id: a \<open>currentTask\<close> slot
  that held it is empty, any other slot is as before, and \<open>queuedTasks\<close> is the earlier
  backlog without the id, in the same order. No queue appears or disappears.
\<close>

theorem cancelTask_cancels:
  assumes "getTask taskId w = (Inr (Some t), w)"
  shows "fst (cancelTask taskId w) = Inr ()
     \<and> tasks (store (snd (cancelTask taskId w)))
         = (tasks (store w))(taskId \<mapsto> t\<lparr>status := Cancelled\<rparr>)
     \<and> (\<forall>n q. queues (store w) n = Some q \<longrightarrow>
           (\<exists>q'. queues (store (snd (cancelTask taskId w))) n = Some q'
              \<and> currentTask q' = (if currentTask q = Some taskId then None else currentTask q)
              \<and> queuedTasks q' = removeAll taskId (queuedTasks q)
              \<and> taskId \<notin> set (queuedTasks q') \<and> currentTask q' \<noteq> Some taskId
              \<and> spriteName q' = spriteName q))
     \<and> (\<forall>n. queues (store w) n = None \<longrightarrow>
           queues (store (snd (cancelTask taskId w))) n = None)"
proof -
  have i: "\<not> notInitialized w" and s: "tasks (store w) taskId = Some t"
    using assms by (simp_all add: getTask_eq)
  have m: "merge_task t (no_updates\<lparr>u_status := Some Cancelled\<rparr>) = t\<lparr>status := Cancelled\<rparr>"
    by (simp add: merge_task_def no_updates_def)
  have c: "cancelTask taskId w =
      (Inr (), (console_log (''Updated task '' @ taskId) (putTask taskId (t\<lparr>status := Cancelled\<rparr>) w))
         \<lparr>store := (store (putTask taskId (t\<lparr>status := Cancelled\<rparr>) w))\<lparr>queues :=
             (\<lambda>n. map_option (cancelInQueue taskId (now w)) (queues (store w) n))\<rparr>\<rparr>)"
    using i s by (simp add: cancelTask_def updateTask_eq m)
  have q: "currentTask (cancelInQueue taskId k q)
             = (if currentTask q = Some taskId then None else currentTask q)
         \<and> queuedTasks (cancelInQueue taskId k q) = removeAll taskId (queuedTasks q)
         \<and> spriteName (cancelInQueue taskId k q) = spriteName q" for k q
    by (simp add: cancelInQueue_def)
  show ?thesis
    using q by (simp add: c putTask_def)
qed

theorem cancelTask_cancels_witness:
  "getTask ''t1'' busy_world = (Inr (Some example_task), busy_world)
   \<and> fst (cancelTask ''t1'' busy_world) = Inr ()
   \<and> tasks (store (snd (cancelTask ''t1'' busy_world))) ''t1''
       = Some (example_task\<lparr>status := Cancelled\<rparr>)
   \<and> queues (store busy_world) ''node-b'' = Some busy_queue
   \<and> (\<exists>q'. queues (store (snd (cancelTask ''t1'' busy_world))) ''node-b'' = Some q'
          \<and> currentTask q' = None \<and> queuedTasks q' = [''t2''])
   \<and> queues (store (snd (cancelTask ''t1'' busy_world))) ''node-a'' = None"
proof -
  have h: "getTask ''t1'' busy_world = (Inr (Some example_task), busy_world)"
    by (simp add: getTask_def busy_world_def example_world_def notInitialized_def)
  have e: "queues (store busy_world) ''node-b'' = Some busy_queue"
      "queues (store busy_world) ''node-a'' = None"
      "currentTask busy_queue = Some ''t1''" "queuedTasks busy_queue = [''t2'']"
    by (simp_all add: busy_world_def busy_queue_def)
  note c = cancelTask_cancels [OF h]
  from c e(1) obtain q' where q':
      "queues (store (snd (cancelTask ''t1'' busy_world))) ''node-b'' = Some q'"
      "currentTask q' = (if currentTask busy_queue = Some ''t1'' then None
                         else currentTask busy_queue)"
      "queuedTasks q' = removeAll ''t1'' (queuedTasks busy_queue)"
    by blast
  from c e(2) have a: "queues (store (snd (cancelTask ''t1'' busy_world))) ''node-a'' = None"
    by blast
  show ?thesis
    using c h e q' a by simp
qed

text \<open>
  C7 (on the specification's \<open>reassignTask\<close>). For an id with a stored task record,
  whose present assignee's queue and the new assignee's queue carry their own names,
  \<open>reassignTask\<close> succeeds. The record gets status \<open>pending\<close> and the new \<open>assignedTo\<close>
  and is otherwise as it was (its timestamps stay). The old assignee's queue loses the id
  from \<open>queuedTasks\<close> and from \<open>currentTask\<close>, and the new assignee's queue gets it
  appended at the tail; when both are the same node the id moves to the tail of that
  queue. No other queue changes.
\<close>

theorem reassignTask_moves:
  assumes "getTask taskId w = (Inr (Some t), w)"
    and "getTaskQueue (assignedTo t) w = (Inr qo, w)" and "spriteName qo = assignedTo t"
    and "getTaskQueue new w = (Inr qn, w)" and "spriteName qn = new"
  shows "fst (reassignTask taskId new w) = Inr ()
     \<and> tasks (store (snd (reassignTask taskId new w)))
         = (tasks (store w))(taskId \<mapsto> t\<lparr>status := Pending, assignedTo := new\<rparr>)
     \<and> (new \<noteq> assignedTo t \<longrightarrow>
          queues (store (snd (reassignTask taskId new w))) (assignedTo t)
            = Some (qo\<lparr>queuedTasks := removeAll taskId (queuedTasks qo),
                       currentTask := (if currentTask qo = Some taskId then None
                                       else currentTask qo),
                       lastUpdated := now w\<rparr>)
        \<and> queues (store (snd (reassignTask taskId new w))) new
            = Some (qn\<lparr>queuedTasks := queuedTasks qn @ [taskId], lastUpdated := now w\<rparr>))
     \<and> (new = assignedTo t \<longrightarrow>
          queues (store (snd (reassignTask taskId new w))) new
            = Some (qo\<lparr>queuedTasks := removeAll taskId (queuedTasks qo) @ [taskId],
                       currentTask := (if currentTask qo = Some taskId then None
                                       else currentTask qo),
                       lastUpdated := now w\<rparr>))
     \<and> (\<forall>n. n \<noteq> assignedTo t \<and> n \<noteq> new \<longrightarrow>
           queues (store (snd (reassignTask taskId new w))) n = queues (store w) n)"
proof -
  let ?old = "assignedTo t"
  let ?qo = "qo\<lparr>queuedTasks := removeAll taskId (queuedTasks qo),
                 currentTask := (if currentTask qo = Some taskId then None else currentTask qo)\<rparr>"
  let ?w3 = "console_log (''Updated task queue for '' @ ?old)
               (putQueue ?old (?qo\<lparr>lastUpdated := now w\<rparr>) w)"
  let ?t = "t\<lparr>status := Pending, assignedTo := new\<rparr>"
  let ?w4 = "console_log (''Updated task '' @ taskId) (putTask taskId ?t ?w3)"
  let ?qn = "if new = ?old then ?qo\<lparr>lastUpdated := now w\<rparr> else qn"
  have i: "\<not> notInitialized w" and s: "tasks (store w) taskId = Some t"
    using assms(1) by (simp_all add: getTask_eq)
  have m: "merge_task t (no_updates\<lparr>u_status := Some Pending, u_assignedTo := Some new\<rparr>) = ?t"
    by (simp add: merge_task_def no_updates_def)
  have s1: "updateTaskQueue ?qo w = (Inr (), ?w3)"
    using i assms(3) by (simp add: updateTaskQueue_eq)
  have s2: "updateTask taskId (no_updates\<lparr>u_status := Some Pending, u_assignedTo := Some new\<rparr>) ?w3
              = (Inr (), ?w4)"
    using i s by (simp add: updateTask_eq m)
  have g: "getTaskQueue new ?w4 = (Inr ?qn, ?w4)"
    using i assms(4) by (auto simp: getTaskQueue_eq split: option.splits)
  have s3: "addTaskToQueue new taskId ?w4
              = (Inr (), console_log (''Updated task queue for '' @ new)
                   (putQueue new (?qn\<lparr>queuedTasks := queuedTasks ?qn @ [taskId],
                                      lastUpdated := now w\<rparr>) ?w4))"
    using addTaskToQueue_eq [OF g, of taskId] assms(3,5) by (simp split: if_splits)
  have r: "reassignTask taskId new w
             = (Inr (), wakeBestEffort new (console_log (''Updated task queue for '' @ new)
                   (putQueue new (?qn\<lparr>queuedTasks := queuedTasks ?qn @ [taskId],
                                      lastUpdated := now w\<rparr>) ?w4)))"
    using assms(1,2) s1 s2 s3 by (simp add: reassignTask_def)
  show ?thesis
    using r by (cases "new = assignedTo t") simp_all
qed

theorem reassignTask_moves_witness:
  "getTask ''t1'' busy_world = (Inr (Some example_task), busy_world)
   \<and> getTaskQueue (assignedTo example_task) busy_world = (Inr busy_queue, busy_world)
   \<and> getTaskQueue ''node-c'' busy_world
       = (Inr \<lparr>spriteName = ''node-c'', queuedTasks = [], currentTask = None, lastUpdated = 7\<rparr>,
          busy_world)
   \<and> fst (reassignTask ''t1'' ''node-c'' busy_world) = Inr ()
   \<and> tasks (store (snd (reassignTask ''t1'' ''node-c'' busy_world))) ''t1''
       = Some (example_task\<lparr>status := Pending, assignedTo := ''node-c''\<rparr>)
   \<and> queues (store (snd (reassignTask ''t1'' ''node-c'' busy_world))) ''node-b''
       = Some \<lparr>spriteName = ''node-b'', queuedTasks = [''t2''], currentTask = None,
               lastUpdated = 7\<rparr>
   \<and> queues (store (snd (reassignTask ''t1'' ''node-c'' busy_world))) ''node-c''
       = Some \<lparr>spriteName = ''node-c'', queuedTasks = [''t1''], currentTask = None,
               lastUpdated = 7\<rparr>"
proof -
  let ?qn = "\<lparr>spriteName = ''node-c'', queuedTasks = [], currentTask = None, lastUpdated = 7\<rparr>"
  have h1: "getTask ''t1'' busy_world = (Inr (Some example_task), busy_world)"
    by (simp add: getTask_def busy_world_def example_world_def notInitialized_def)
  have h2: "getTaskQueue (assignedTo example_task) busy_world = (Inr busy_queue, busy_world)"
    by (simp add: getTaskQueue_def busy_world_def example_world_def notInitialized_def
        example_task_def)
  have h3: "spriteName busy_queue = assignedTo example_task"
    by (simp add: busy_queue_def example_task_def)
  have h4: "getTaskQueue ''node-c'' busy_world = (Inr ?qn, busy_world)"
    by (simp add: getTaskQueue_def busy_world_def example_world_def notInitialized_def now_def)
  have h5: "spriteName ?qn = ''node-c''" by simp
  have e: "assignedTo example_task = ''node-b''" "now busy_world = 7"
    by (simp_all add: example_task_def now_def busy_world_def example_world_def)
  show ?thesis
    using reassignTask_moves [OF h1 h2 h3 h4 h5] h1 h2 h4 e by (simp add: busy_queue_def)
qed

end

